theory Spec2Isabelle
  imports Main
begin

section \<open>Strings\<close>

text \<open>
  A Python \<open>str\<close> is modelled as a \<open>string\<close> whose characters are code points below 256;
  \<open>bytes\<close> are character lists too, one character per byte.
\<close>

type_synonym bytes = string

text \<open>The code points below 256 for which Python's \<open>str.isspace\<close> holds.\<close>

definition is_space :: "char \<Rightarrow> bool" where
  "is_space c =
     (let n = (of_char c :: nat)
      in (9 \<le> n \<and> n \<le> 13) \<or> (28 \<le> n \<and> n \<le> 32) \<or> n = 133 \<or> n = 160)"

text \<open>\<open>str.strip()\<close>: leading and trailing whitespace removed.\<close>

definition strip :: "string \<Rightarrow> string" where
  "strip s = rev (dropWhile is_space (rev (dropWhile is_space s)))"

text \<open>\<open>str.lower()\<close> on code points below 256.\<close>

definition lower_char :: "char \<Rightarrow> char" where
  "lower_char c =
     (let n = (of_char c :: nat)
      in if (65 \<le> n \<and> n \<le> 90) \<or> (192 \<le> n \<and> n \<le> 222 \<and> n \<noteq> 215)
         then char_of (n + 32) else c)"

definition lower :: "string \<Rightarrow> string" where
  "lower s = map lower_char s"

text \<open>
  \<open>int(s)\<close> on a \<open>str\<close>: surrounding whitespace is dropped, an optional sign follows,
  then decimal digits with single underscores allowed between digits. \<open>None\<close> stands for
  the \<open>ValueError\<close> that every caller in this program catches.
\<close>

definition is_digit :: "char \<Rightarrow> bool" where
  "is_digit c = (let n = (of_char c :: nat) in 48 \<le> n \<and> n \<le> 57)"

definition digit_val :: "char \<Rightarrow> nat" where
  "digit_val c = of_char c - 48"

fun digits_from :: "nat \<Rightarrow> string \<Rightarrow> nat option" where
  "digits_from acc [] = Some acc"
| "digits_from acc [c] = (if is_digit c then Some (10 * acc + digit_val c) else None)"
| "digits_from acc (c # d # cs) =
     (if is_digit c then
        (if d = CHR ''_'' then
           (case cs of [] \<Rightarrow> None
            | e # _ \<Rightarrow> if is_digit e then digits_from (10 * acc + digit_val c) cs else None)
         else digits_from (10 * acc + digit_val c) (d # cs))
      else None)"

definition parse_digits :: "string \<Rightarrow> nat option" where
  "parse_digits s = (case s of [] \<Rightarrow> None | c # _ \<Rightarrow> if is_digit c then digits_from 0 s else None)"

definition py_int :: "string \<Rightarrow> int option" where
  "py_int raw =
     (case strip raw of
        [] \<Rightarrow> None
      | c # cs \<Rightarrow>
          if c = CHR ''-'' then map_option (\<lambda>n. - int n) (parse_digits cs)
          else if c = CHR ''+'' then map_option int (parse_digits cs)
          else map_option int (parse_digits (c # cs)))"

section \<open>External libraries\<close>

text \<open>
  The password hashing of werkzeug, the Fernet cipher, the UTF-8 codec and the database
  engine's reading of a textual primary key are not code of this program. They are taken
  as parameters. Salts and the cipher's time stamp and initialisation vector are the
  libraries' random draws, passed in as numbers.
\<close>

datatype exn = InvalidToken | UnicodeDecodeError

record env =
  generate_password_hash :: "nat \<Rightarrow> string \<Rightarrow> string"
  check_password_hash :: "string \<Rightarrow> string \<Rightarrow> bool"
  fernet_encrypt :: "nat \<Rightarrow> bytes \<Rightarrow> bytes"
  fernet_decrypt :: "bytes \<Rightarrow> exn + bytes"
  str_encode :: "string \<Rightarrow> bytes"
  bytes_decode :: "bytes \<Rightarrow> exn + string"
  pk_of_text :: "string \<Rightarrow> int option"

text \<open>
  The contract of the hashing library: a hash is never the empty string, and a candidate
  verifies against a hash exactly when it is the string that was hashed.
\<close>

definition hash_ok :: "env \<Rightarrow> bool" where
  "hash_ok L =
     ((\<forall>salt s. generate_password_hash L salt s \<noteq> []) \<and>
      (\<forall>salt s t. check_password_hash L (generate_password_hash L salt s) t = (s = t)))"

text \<open>
  The contract of the cipher and the codec: decoding undoes encoding, decrypting under the
  same key undoes encrypting, and a token is non-empty text that encodes back to itself.
\<close>

definition cipher_ok :: "env \<Rightarrow> bool" where
  "cipher_ok L =
     ((\<forall>s. bytes_decode L (str_encode L s) = Inr s) \<and>
      (\<forall>iv m. fernet_decrypt L (fernet_encrypt L iv m) = Inr m) \<and>
      (\<forall>iv m. \<exists>t. t \<noteq> [] \<and> bytes_decode L (fernet_encrypt L iv m) = Inr t \<and>
                 str_encode L t = fernet_encrypt L iv m))"

text \<open>
  A small instance of the libraries, used to run the model on concrete inputs: the hash
  of \<open>s\<close> is \<open>s\<close> behind a marker, the cipher reverses its input behind a marker and
  rejects everything else, the codec is the identity, and a textual key is read as
  \<open>int\<close> reads it.
\<close>

definition test_env :: env where
  "test_env =
     \<lparr> generate_password_hash = (\<lambda>salt s. CHR ''#'' # s),
       check_password_hash = (\<lambda>h t. h = CHR ''#'' # t),
       fernet_encrypt = (\<lambda>iv m. CHR ''g'' # rev m),
       fernet_decrypt = (\<lambda>t. case t of [] \<Rightarrow> Inl InvalidToken
                              | c # cs \<Rightarrow> if c = CHR ''g'' then Inr (rev cs) else Inl InvalidToken),
       str_encode = (\<lambda>s. s),
       bytes_decode = (\<lambda>b. Inr b),
       pk_of_text = py_int \<rparr>"

section \<open>User account entity\<close>

record user =
  u_id :: int
  u_username :: string
  u_email :: string
  u_password_hash :: string
  u_is_admin :: bool
  u_security_key_hash :: "string option"
  u_created_at :: int

text \<open>Python truthiness of an optional string: neither \<open>None\<close> nor empty.\<close>

definition truthy :: "string option \<Rightarrow> bool" where
  "truthy s = (case s of None \<Rightarrow> False | Some t \<Rightarrow> t \<noteq> [])"

definition set_password :: "env \<Rightarrow> nat \<Rightarrow> string \<Rightarrow> user \<Rightarrow> user" where
  "set_password L salt password u = u\<lparr>u_password_hash := generate_password_hash L salt password\<rparr>"

definition check_password :: "env \<Rightarrow> user \<Rightarrow> string \<Rightarrow> bool" where
  "check_password L u password = check_password_hash L (u_password_hash u) password"

definition set_security_key :: "env \<Rightarrow> nat \<Rightarrow> string option \<Rightarrow> user \<Rightarrow> user" where
  "set_security_key L salt security_key u =
     (if truthy security_key
      then u\<lparr>u_security_key_hash := Some (generate_password_hash L salt (strip (the security_key)))\<rparr>
      else u\<lparr>u_security_key_hash := None\<rparr>)"

definition verify_security_key :: "env \<Rightarrow> user \<Rightarrow> string option \<Rightarrow> bool" where
  "verify_security_key L u security_key =
     (if \<not> truthy security_key \<or> \<not> truthy (u_security_key_hash u) then False
      else check_password_hash L (the (u_security_key_hash u)) (strip (the security_key)))"

section \<open>Election entities\<close>

record campaign =
  c_id :: int
  c_name :: string
  c_description :: "string option"
  c_is_active :: bool
  c_start_at :: "int option"
  c_end_at :: "int option"
  c_created_at :: int

record candidate =
  cand_id :: int
  cand_name :: string
  cand_manifesto :: "string option"
  cand_campaign_id :: int

record vote =
  v_id :: int
  v_timestamp :: int
  v_user_id :: int
  v_candidate_id :: int
  v_campaign_id :: int
  v_encrypted_choice :: "string option"

section \<open>Application state, requests and responses\<close>

text \<open>
  The four tables in row order, the flash notices queued for the next page (message and
  category), the account the session is bound to, and the number of commits made.
\<close>

record app_state =
  users :: "user list"
  campaigns :: "campaign list"
  candidates :: "candidate list"
  votes :: "vote list"
  flashes :: "(string \<times> string) list"
  session_user :: "int option"
  commits :: nat

datatype http_method = GET | POST

text \<open>
  A request: method, form body and query string (the first value of a key is the one
  \<open>get\<close> returns), the server's clock, and the random draws of the libraries.
\<close>

record request =
  rq_method :: http_method
  rq_form :: "(string \<times> string) list"
  rq_args :: "(string \<times> string) list"
  rq_now :: int
  rq_pw_salt :: nat
  rq_key_salt :: nat
  rq_iv :: nat

datatype endpoint =
  Index | Login | UserDashboard | AdminVoters | AdminCampaigns | AdminCandidates int

text \<open>
  What a handler returns. \<open>Render\<close> names the template only. \<open>NotFound\<close> is the 404 of
  \<open>get_or_404\<close>, \<open>ServerError\<close> an exception that no handler catches.
\<close>

datatype response =
  Redirect endpoint | RedirectUrl string | Render string | NotFound | ServerError

definition form_get :: "request \<Rightarrow> string \<Rightarrow> string option" where
  "form_get rq k = map_of (rq_form rq) k"

definition form_get_default :: "request \<Rightarrow> string \<Rightarrow> string \<Rightarrow> string" where
  "form_get_default rq k d = (case map_of (rq_form rq) k of None \<Rightarrow> d | Some v \<Rightarrow> v)"

definition args_get :: "request \<Rightarrow> string \<Rightarrow> string option" where
  "args_get rq k = map_of (rq_args rq) k"

text \<open>\<open>request.args.get(k, type=int)\<close>: a value that does not parse counts as missing.\<close>

definition args_get_int :: "request \<Rightarrow> string \<Rightarrow> int option" where
  "args_get_int rq k = (case map_of (rq_args rq) k of None \<Rightarrow> None | Some v \<Rightarrow> py_int v)"

definition flash :: "string \<Rightarrow> string \<Rightarrow> app_state \<Rightarrow> app_state" where
  "flash message category st = st\<lparr>flashes := flashes st @ [(message, category)]\<rparr>"

definition commit :: "app_state \<Rightarrow> app_state" where
  "commit st = st\<lparr>commits := Suc (commits st)\<rparr>"

text \<open>The key an integer primary key column gives a new row.\<close>

definition next_id :: "int list \<Rightarrow> int" where
  "next_id ids = fold max ids 0 + 1"

subsection \<open>Queries\<close>

definition get_user :: "app_state \<Rightarrow> int \<Rightarrow> user option" where
  "get_user st i = List.find (\<lambda>u. u_id u = i) (users st)"

definition get_campaign :: "app_state \<Rightarrow> int \<Rightarrow> campaign option" where
  "get_campaign st i = List.find (\<lambda>c. c_id c = i) (campaigns st)"

definition get_candidate :: "app_state \<Rightarrow> int \<Rightarrow> candidate option" where
  "get_candidate st i = List.find (\<lambda>c. cand_id c = i) (candidates st)"

text \<open>
  \<open>query.get\<close> with the raw form value: a missing value finds nothing, a text is read
  as a key by the database engine.
\<close>

definition key_of_form :: "env \<Rightarrow> string option \<Rightarrow> int option" where
  "key_of_form L raw = (case raw of None \<Rightarrow> None | Some t \<Rightarrow> pk_of_text L t)"

definition user_by_email :: "app_state \<Rightarrow> string \<Rightarrow> user option" where
  "user_by_email st e = List.find (\<lambda>u. u_email u = e) (users st)"

definition campaign_by_name :: "app_state \<Rightarrow> string \<Rightarrow> campaign option" where
  "campaign_by_name st n = List.find (\<lambda>c. c_name c = n) (campaigns st)"

text \<open>The relationship \<open>Campaign.votes\<close>.\<close>

definition campaign_votes :: "app_state \<Rightarrow> campaign \<Rightarrow> vote list" where
  "campaign_votes st c = filter (\<lambda>v. v_campaign_id v = c_id c) (votes st)"

subsection \<open>Updates of a row, and deletes with their cascades\<close>

definition set_is_admin :: "int \<Rightarrow> bool \<Rightarrow> app_state \<Rightarrow> app_state" where
  "set_is_admin i b st =
     st\<lparr>users := map (\<lambda>u. if u_id u = i then u\<lparr>u_is_admin := b\<rparr> else u) (users st)\<rparr>"

definition update_campaign :: "int \<Rightarrow> (campaign \<Rightarrow> campaign) \<Rightarrow> app_state \<Rightarrow> app_state" where
  "update_campaign i f st =
     st\<lparr>campaigns := map (\<lambda>c. if c_id c = i then f c else c) (campaigns st)\<rparr>"

definition update_candidate :: "int \<Rightarrow> (candidate \<Rightarrow> candidate) \<Rightarrow> app_state \<Rightarrow> app_state" where
  "update_candidate i f st =
     st\<lparr>candidates := map (\<lambda>c. if cand_id c = i then f c else c) (candidates st)\<rparr>"

text \<open>Deleting a user deletes the user's votes.\<close>

definition delete_user :: "int \<Rightarrow> app_state \<Rightarrow> app_state" where
  "delete_user i st =
     st\<lparr>users := filter (\<lambda>u. u_id u \<noteq> i) (users st),
        votes := filter (\<lambda>v. v_user_id v \<noteq> i) (votes st)\<rparr>"

text \<open>Deleting a candidate deletes the votes for the candidate.\<close>

definition delete_candidate :: "int \<Rightarrow> app_state \<Rightarrow> app_state" where
  "delete_candidate i st =
     st\<lparr>candidates := filter (\<lambda>c. cand_id c \<noteq> i) (candidates st),
        votes := filter (\<lambda>v. v_candidate_id v \<noteq> i) (votes st)\<rparr>"

text \<open>
  Deleting a campaign deletes its candidates, the votes for those candidates, and the
  votes of the campaign.
\<close>

definition delete_campaign :: "int \<Rightarrow> app_state \<Rightarrow> app_state" where
  "delete_campaign i st =
     (let gone = map cand_id (filter (\<lambda>c. cand_campaign_id c = i) (candidates st))
      in st\<lparr>campaigns := filter (\<lambda>c. c_id c \<noteq> i) (campaigns st),
            candidates := filter (\<lambda>c. cand_campaign_id c \<noteq> i) (candidates st),
            votes := filter (\<lambda>v. v_campaign_id v \<noteq> i \<and> v_candidate_id v \<notin> set gone) (votes st)\<rparr>)"

section \<open>Application server\<close>

subsection \<open>Vote encryption\<close>

definition encrypt_choice :: "env \<Rightarrow> nat \<Rightarrow> string \<Rightarrow> exn + string" where
  "encrypt_choice L iv candidate_name =
     bytes_decode L (fernet_encrypt L iv (str_encode L candidate_name))"

text \<open>The body of the \<open>try\<close> in \<open>decrypt_choice\<close>.\<close>

definition decrypt_token :: "env \<Rightarrow> string \<Rightarrow> exn + string" where
  "decrypt_token L token =
     (case fernet_decrypt L (str_encode L token) of
        Inl e \<Rightarrow> Inl e
      | Inr m \<Rightarrow> bytes_decode L m)"

text \<open>
  \<open>decrypt_choice\<close> itself; a left value would be an exception leaving the function.
\<close>

definition decrypt_choice :: "env \<Rightarrow> string option \<Rightarrow> exn + string option" where
  "decrypt_choice L token =
     (if \<not> truthy token then Inr None
      else (case decrypt_token L (the token) of
              Inr s \<Rightarrow> Inr (Some s)
            | Inl e \<Rightarrow> Inr None))"

subsection \<open>Bootstrap: the primary administrator\<close>

definition enforce_primary_admin :: "app_state \<Rightarrow> app_state" where
  "enforce_primary_admin st =
     (let primary_email = ''1@gmail.com'' in
      case user_by_email st primary_email of
        None \<Rightarrow> st
      | Some primary_user \<Rightarrow>
          (let non_primary_admins =
                 filter (\<lambda>u. u_email u \<noteq> primary_email \<and> u_is_admin u) (users st);
               (st1, changes1) =
                 fold (\<lambda>user (s, changes). (set_is_admin (u_id user) False s, True))
                   non_primary_admins (st, False);
               (st2, changes2) =
                 (if \<not> u_is_admin primary_user
                  then (set_is_admin (u_id primary_user) True st1, True)
                  else (st1, changes1))
           in if changes2 then commit st2 else st2))"

subsection \<open>Signup and login\<close>

text \<open>
  The caller is \<open>None\<close> when the request carries no authenticated session.
\<close>

definition signup :: "env \<Rightarrow> user option \<Rightarrow> request \<Rightarrow> app_state \<Rightarrow> app_state \<times> response" where
  "signup L current_user rq st =
     (if current_user \<noteq> None then (st, Redirect Index)
      else if rq_method rq = POST then
        (let username = strip (form_get_default rq ''username'' []);
             email = lower (strip (form_get_default rq ''email'' []));
             password = form_get_default rq ''password'' [];
             security_key = strip (form_get_default rq ''security_key'' []);
             is_primary_admin = (email = ''1@gmail.com'');
             errors =
               (if username = [] \<or> email = [] \<or> password = []
                then [''All fields are required.''] else []) @
               (if user_by_email st email \<noteq> None
                then [''Email is already registered.''] else []) @
               (if \<not> is_primary_admin \<and> security_key = []
                then [''Security key is required for voters.''] else [])
         in if errors \<noteq> [] then
              (fold (\<lambda>err. flash err ''danger'') errors st, Render ''signup.html'')
            else
              (let user0 = \<lparr>u_id = next_id (map u_id (users st)), u_username = username,
                            u_email = email, u_password_hash = [],
                            u_is_admin = is_primary_admin, u_security_key_hash = None,
                            u_created_at = rq_now rq\<rparr>;
                   user1 = set_password L (rq_pw_salt rq) password user0;
                   user2 = (if is_primary_admin
                            then set_security_key L (rq_key_salt rq) None user1
                            else set_security_key L (rq_key_salt rq) (Some security_key) user1)
               in (flash ''Account created. Please log in.'' ''success''
                     (commit (st\<lparr>users := users st @ [user2]\<rparr>)),
                   Redirect Login)))
      else (st, Render ''signup.html''))"

definition login_user :: "user \<Rightarrow> app_state \<Rightarrow> app_state" where
  "login_user u st = st\<lparr>session_user := Some (u_id u)\<rparr>"

text \<open>
  In \<open>login\<close> the block under the password test either returns (a right value) or falls
  through to the statement after it (a left value, the state so far).
\<close>

definition login :: "env \<Rightarrow> user option \<Rightarrow> request \<Rightarrow> app_state \<Rightarrow> app_state \<times> response" where
  "login L current_user rq st =
     (if current_user \<noteq> None then (st, Redirect Index)
      else if rq_method rq = POST then
        (let email = lower (strip (form_get_default rq ''email'' []));
             password = form_get_default rq ''password'' [];
             security_key = strip (form_get_default rq ''security_key'' []);
             found = user_by_email st email;
             block =
               (if found \<noteq> None \<and> check_password L (the found) password then
                  (if \<not> u_is_admin (the found) \<and>
                      \<not> verify_security_key L (the found) (Some security_key)
                   then Inl (flash ''Invalid security key.'' ''danger'' st)
                   else
                     (let st1 = flash ''Welcome back!'' ''success'' (login_user (the found) st);
                          next_page = args_get rq ''next''
                      in if truthy next_page then Inr (st1, RedirectUrl (the next_page))
                         else if u_is_admin (the found) then Inr (st1, Redirect AdminVoters)
                         else Inr (st1, Redirect UserDashboard)))
                else Inl st)
         in case block of
              Inr returned \<Rightarrow> returned
            | Inl st1 \<Rightarrow>
                (flash ''Invalid email or password.'' ''danger'' st1, Render ''login.html''))
      else (st, Render ''login.html''))"

subsection \<open>Casting a vote\<close>

text \<open>
  The handlers below run behind \<open>login_required\<close>: the caller is the account of the
  session.
\<close>

definition cast_vote :: "env \<Rightarrow> user \<Rightarrow> request \<Rightarrow> int \<Rightarrow> app_state \<Rightarrow> app_state \<times> response" where
  "cast_vote L current_user rq candidate_id st =
     (if u_is_admin current_user then
        (flash ''Admins cannot vote.'' ''warning'' st, Redirect AdminVoters)
      else
        (let security_key = strip (form_get_default rq ''security_key'' [])
         in if \<not> verify_security_key L current_user (Some security_key) then
              (flash ''Security key mismatch.'' ''danger'' st, Redirect UserDashboard)
            else
              (case get_candidate st candidate_id of
                 None \<Rightarrow> (st, NotFound)
               | Some candidate \<Rightarrow>
                   (let found = get_campaign st (cand_campaign_id candidate)
                    in if found = None \<or> \<not> c_is_active (the found) then
                         (flash ''This campaign is not accepting votes.'' ''warning'' st,
                          Redirect UserDashboard)
                       else
                         (let campaign = the found;
                              existing_vote =
                                List.find (\<lambda>v. v_user_id v = u_id current_user \<and>
                                               v_campaign_id v = c_id campaign) (votes st)
                          in if existing_vote \<noteq> None then
                               (flash ''You have already voted in this campaign.'' ''info'' st,
                                Redirect UserDashboard)
                             else
                               (case encrypt_choice L (rq_iv rq) (cand_name candidate) of
                                  Inl e \<Rightarrow> (st, ServerError)
                                | Inr token \<Rightarrow>
                                    (let vote = \<lparr>v_id = next_id (map v_id (votes st)),
                                                 v_timestamp = rq_now rq,
                                                 v_user_id = u_id current_user,
                                                 v_candidate_id = cand_id candidate,
                                                 v_campaign_id = c_id campaign,
                                                 v_encrypted_choice = Some token\<rparr>
                                     in (flash ''Vote submitted successfully!'' ''success''
                                           (commit (st\<lparr>votes := votes st @ [vote]\<rparr>)),
                                         Redirect UserDashboard))))))))"

subsection \<open>Administrative console\<close>

definition admin_required ::
  "(user \<Rightarrow> request \<Rightarrow> app_state \<Rightarrow> app_state \<times> response) \<Rightarrow>
   user \<Rightarrow> request \<Rightarrow> app_state \<Rightarrow> app_state \<times> response" where
  "admin_required func current_user rq st =
     (if \<not> u_is_admin current_user then
        (flash ''Admin access required.'' ''danger'' st, Redirect Index)
      else func current_user rq st)"

definition admin_voters_view ::
  "env \<Rightarrow> user \<Rightarrow> request \<Rightarrow> app_state \<Rightarrow> app_state \<times> response" where
  "admin_voters_view L current_user rq st =
     (if rq_method rq = POST then
        (let action = form_get rq ''action'';
             user_id = form_get rq ''user_id''
         in case (case key_of_form L user_id of None \<Rightarrow> None | Some i \<Rightarrow> get_user st i) of
              None \<Rightarrow> (st, NotFound)
            | Some target \<Rightarrow>
                if u_id target = u_id current_user then
                  (flash ''You cannot modify your own role.'' ''warning'' st, Redirect AdminVoters)
                else if action = Some ''toggle_admin'' then
                  (flash ''User role updated.'' ''success''
                     (commit (set_is_admin (u_id target) (\<not> u_is_admin target) st)),
                   Render ''admin_voters.html'')
                else if action = Some ''delete'' then
                  (flash ''User deleted.'' ''info'' (commit (delete_user (u_id target) st)),
                   Render ''admin_voters.html'')
                else (st, Render ''admin_voters.html''))
      else (st, Render ''admin_voters.html''))"

definition admin_voters :: "env \<Rightarrow> user \<Rightarrow> request \<Rightarrow> app_state \<Rightarrow> app_state \<times> response" where
  "admin_voters L = admin_required (admin_voters_view L)"

text \<open>
  \<open>(request.form.get(k) or "")\<close>: a missing and an empty value are both the empty string.
\<close>

definition form_get_or_empty :: "request \<Rightarrow> string \<Rightarrow> string" where
  "form_get_or_empty rq k = (if truthy (form_get rq k) then the (form_get rq k) else [])"

definition none_if_empty :: "string \<Rightarrow> string option" where
  "none_if_empty s = (if s \<noteq> [] then Some s else None)"

text \<open>
  The campaign name is unique in the schema: a commit that would store a name twice
  raises, which no handler catches.
\<close>

definition name_taken_by_other :: "app_state \<Rightarrow> int \<Rightarrow> string \<Rightarrow> bool" where
  "name_taken_by_other st i n = (\<exists>c \<in> set (campaigns st). c_id c \<noteq> i \<and> c_name c = n)"

definition admin_campaigns_view ::
  "user \<Rightarrow> request \<Rightarrow> app_state \<Rightarrow> app_state \<times> response" where
  "admin_campaigns_view current_user rq st =
     (if rq_method rq = POST then
        (let action = form_get rq ''action'';
             name = strip (form_get_or_empty rq ''name'');
             description = strip (form_get_or_empty rq ''description'');
             is_active = (form_get rq ''is_active'' = Some ''on'');
             campaign_id_raw = form_get rq ''campaign_id'';
             campaign_id = (if truthy campaign_id_raw then py_int (the campaign_id_raw) else None)
         in if action = Some ''create'' then
              (if name = [] then
                 (flash ''Campaign name is required.'' ''danger'' st, Redirect AdminCampaigns)
               else if campaign_by_name st name \<noteq> None then
                 (flash ''Campaign name must be unique.'' ''danger'' st, Redirect AdminCampaigns)
               else
                 (flash ''Campaign created.'' ''success''
                    (commit (st\<lparr>campaigns := campaigns st @
                       [\<lparr>c_id = next_id (map c_id (campaigns st)), c_name = name,
                         c_description = none_if_empty description, c_is_active = is_active,
                         c_start_at = None, c_end_at = None, c_created_at = rq_now rq\<rparr>]\<rparr>)),
                  Redirect AdminCampaigns))
            else
              (case (case campaign_id of None \<Rightarrow> None | Some i \<Rightarrow> get_campaign st i) of
                 None \<Rightarrow> (st, NotFound)
               | Some campaign \<Rightarrow>
                   if action = Some ''update'' then
                     (if name = [] then
                        (flash ''Campaign name cannot be empty.'' ''danger'' st,
                         Redirect AdminCampaigns)
                      else if name_taken_by_other st (c_id campaign) name then (st, ServerError)
                      else
                        (flash ''Campaign updated.'' ''success''
                           (commit (update_campaign (c_id campaign)
                              (\<lambda>c. c\<lparr>c_name := name, c_description := none_if_empty description,
                                     c_is_active := is_active\<rparr>) st)),
                         Redirect AdminCampaigns))
                   else if action = Some ''toggle_active'' then
                     (flash (if \<not> c_is_active campaign then ''Campaign activated.''
                             else ''Campaign paused.'') ''info''
                        (commit (update_campaign (c_id campaign)
                           (\<lambda>c. c\<lparr>c_is_active := \<not> c_is_active campaign\<rparr>) st)),
                      Redirect AdminCampaigns)
                   else if action = Some ''delete'' then
                     (if campaign_votes st campaign \<noteq> [] then
                        (flash ''Cannot delete a campaign that already has votes recorded.''
                           ''danger'' st,
                         Redirect AdminCampaigns)
                      else
                        (flash ''Campaign deleted.'' ''info''
                           (commit (delete_campaign (c_id campaign) st)),
                         Redirect AdminCampaigns))
                   else (st, Redirect AdminCampaigns)))
      else (st, Render ''admin_campaigns.html''))"

definition admin_campaigns :: "user \<Rightarrow> request \<Rightarrow> app_state \<Rightarrow> app_state \<times> response" where
  "admin_campaigns = admin_required admin_campaigns_view"

text \<open>
  \<open>Campaign.query.order_by(Campaign.created_at.desc())\<close>; rows created at the same
  instant keep their table order.
\<close>

definition campaigns_newest_first :: "app_state \<Rightarrow> campaign list" where
  "campaigns_newest_first st = sort_key (\<lambda>c. - c_created_at c) (campaigns st)"

text \<open>
  The selected campaign of the candidates view: the query parameter when it is the id of
  a campaign, else the newest campaign. The list is not empty where this is called.
\<close>

definition selected_campaign :: "request \<Rightarrow> campaign list \<Rightarrow> int" where
  "selected_campaign rq cs =
     (case args_get_int rq ''campaign_id'' of
        None \<Rightarrow> c_id (hd cs)
      | Some i \<Rightarrow> if i \<notin> set (map c_id cs) then c_id (hd cs) else i)"

text \<open>
  Foreign keys are declared, not checked (the default of the file database this program
  is configured for): a candidate row takes the campaign id it is given.
\<close>

definition admin_candidates_view ::
  "env \<Rightarrow> user \<Rightarrow> request \<Rightarrow> app_state \<Rightarrow> app_state \<times> response" where
  "admin_candidates_view L current_user rq st =
     (let cs = campaigns_newest_first st
      in if cs = [] then
           (flash ''Create a campaign before adding candidates.'' ''warning'' st,
            Redirect AdminCampaigns)
         else
           (let selected_campaign_id = selected_campaign rq cs
            in if rq_method rq = POST then
                 (let action = form_get rq ''action'';
                      name = strip (form_get_default rq ''name'' []);
                      manifesto = strip (form_get_default rq ''manifesto'' []);
                      candidate_id = form_get rq ''candidate_id'';
                      campaign_id_raw = form_get rq ''campaign_id'';
                      campaign_id =
                        (if truthy campaign_id_raw then
                           (case py_int (the campaign_id_raw) of
                              Some i \<Rightarrow> i
                            | None \<Rightarrow> selected_campaign_id)
                         else selected_campaign_id)
                  in if action = Some ''create'' then
                       (if name = [] then
                          (flash ''Candidate name is required.'' ''danger'' st,
                           Redirect (AdminCandidates campaign_id))
                        else if campaign_id = 0 then
                          (flash ''Select a campaign for this candidate.'' ''danger'' st,
                           Redirect (AdminCandidates campaign_id))
                        else
                          (flash ''Candidate added.'' ''success''
                             (commit (st\<lparr>candidates := candidates st @
                                [\<lparr>cand_id = next_id (map cand_id (candidates st)),
                                  cand_name = name, cand_manifesto = none_if_empty manifesto,
                                  cand_campaign_id = campaign_id\<rparr>]\<rparr>)),
                           Redirect (AdminCandidates campaign_id)))
                     else
                       (case (case key_of_form L candidate_id of
                                None \<Rightarrow> None | Some i \<Rightarrow> get_candidate st i) of
                          None \<Rightarrow> (st, NotFound)
                        | Some candidate \<Rightarrow>
                            if action = Some ''update'' then
                              (if name = [] then
                                 (flash ''Name cannot be empty.'' ''danger'' st,
                                  Redirect (AdminCandidates campaign_id))
                               else
                                 (flash ''Candidate updated.'' ''success''
                                    (commit (update_candidate (cand_id candidate)
                                       (\<lambda>c. (if campaign_id \<noteq> 0
                                              then c\<lparr>cand_name := name,
                                                     cand_manifesto := none_if_empty manifesto,
                                                     cand_campaign_id := campaign_id\<rparr>
                                              else c\<lparr>cand_name := name,
                                                     cand_manifesto := none_if_empty manifesto\<rparr>))
                                       st)),
                                  Redirect (AdminCandidates campaign_id)))
                            else if action = Some ''delete'' then
                              (flash ''Candidate removed.'' ''info''
                                 (commit (delete_candidate (cand_id candidate) st)),
                               Redirect (AdminCandidates campaign_id))
                            else (st, Redirect (AdminCandidates campaign_id))))
               else (st, Render ''admin_candidates.html'')))"

definition admin_candidates ::
  "env \<Rightarrow> user \<Rightarrow> request \<Rightarrow> app_state \<Rightarrow> app_state \<times> response" where
  "admin_candidates L = admin_required (admin_candidates_view L)"

section \<open>Concrete inputs\<close>

text \<open>Accounts, rows and requests on which the theorems below are run.\<close>

definition ex_voter :: user where
  "ex_voter = \<lparr>u_id = 2, u_username = ''ann'', u_email = ''ann@example.org'',
               u_password_hash = ''#pw'', u_is_admin = False,
               u_security_key_hash = Some ''#ABC123'', u_created_at = 100\<rparr>"

definition ex_admin :: user where
  "ex_admin = \<lparr>u_id = 1, u_username = ''root'', u_email = ''1@gmail.com'',
               u_password_hash = ''#adminpw'', u_is_admin = True,
               u_security_key_hash = None, u_created_at = 50\<rparr>"

definition ex_promoted :: user where
  "ex_promoted = \<lparr>u_id = 3, u_username = ''bob'', u_email = ''bob@example.org'',
                  u_password_hash = ''#pw3'', u_is_admin = True,
                  u_security_key_hash = Some ''#K3'', u_created_at = 120\<rparr>"

definition ex_state :: app_state where
  "ex_state =
     \<lparr>users = [ex_admin, ex_voter, ex_promoted],
      campaigns =
        [\<lparr>c_id = 1, c_name = ''General Election'',
          c_description = Some ''Default campaign created automatically.'',
          c_is_active = True, c_start_at = None, c_end_at = None, c_created_at = 10\<rparr>,
         \<lparr>c_id = 2, c_name = ''Board'', c_description = None,
          c_is_active = True, c_start_at = None, c_end_at = None, c_created_at = 20\<rparr>],
      candidates =
        [\<lparr>cand_id = 1, cand_name = ''Alice Johnson'',
          cand_manifesto = Some ''Transparency and trust.'', cand_campaign_id = 1\<rparr>,
         \<lparr>cand_id = 2, cand_name = ''Brian Smith'',
          cand_manifesto = Some ''Innovation in voting.'', cand_campaign_id = 1\<rparr>,
         \<lparr>cand_id = 3, cand_name = ''Dana Lee'', cand_manifesto = None, cand_campaign_id = 2\<rparr>],
      votes = [], flashes = [], session_user = None, commits = 0\<rparr>"

definition ex_voted :: app_state where
  "ex_voted =
     ex_state\<lparr>votes := [\<lparr>v_id = 1, v_timestamp = 200, v_user_id = 2, v_candidate_id = 1,
                          v_campaign_id = 1, v_encrypted_choice = Some ''gnosnhoJ ecilA''\<rparr>]\<rparr>"

definition post_rq :: "(string \<times> string) list \<Rightarrow> request" where
  "post_rq form = \<lparr>rq_method = POST, rq_form = form, rq_args = [], rq_now = 300,
                   rq_pw_salt = 0, rq_key_salt = 0, rq_iv = 5\<rparr>"

section \<open>Helper facts\<close>

lemma strip_ABC:
  "strip '' ABC123 '' = ''ABC123''" "strip ''ABC123'' = ''ABC123''"
  "strip ''abc123'' = ''abc123''"
  by (simp_all add: strip_def is_space_def)

lemma strip_blank: "strip ''   '' = []"
  by (simp add: strip_def is_space_def)

lemma hash_ok_test_env: "hash_ok test_env"
  by (simp add: hash_ok_def test_env_def)

lemma cipher_ok_test_env: "cipher_ok test_env"
  by (simp add: cipher_ok_def test_env_def)

lemma py_int_small: "py_int ''1'' = Some 1" "py_int ''2'' = Some 2"
  by code_simp+

lemma norm_emails:
  "lower (strip '' 1@GMAIL.com '') = ''1@gmail.com''"
  "lower (strip ''cy@example.org'') = ''cy@example.org''"
  "lower (strip '' Ann@Example.org'') = ''ann@example.org''"
  by code_simp+

lemma strip_samples:
  "strip ''root'' = ''root''" "strip ''cy'' = ''cy''" "strip ''ignored'' = ''ignored''"
  "strip '' K9 '' = ''K9''" "strip ''wrong'' = ''wrong''"
  "strip '' Alice J. '' = ''Alice J.''" "strip ''  '' = []" "strip [] = []"
  by code_simp+

lemmas ex_defs = ex_admin_def ex_voter_def ex_promoted_def ex_state_def ex_voted_def post_rq_def


lemma find_in_set: "List.find P xs = Some x \<Longrightarrow> x \<in> set xs \<and> P x"
  by (induction xs) (auto split: if_splits)

lemma find_None_set: "(List.find P xs = None) = (\<forall>x \<in> set xs. \<not> P x)"
  by (induction xs) auto

lemma flash_fields [simp]:
  "users (flash m c st) = users st" "campaigns (flash m c st) = campaigns st"
  "candidates (flash m c st) = candidates st" "votes (flash m c st) = votes st"
  "session_user (flash m c st) = session_user st" "commits (flash m c st) = commits st"
  by (simp_all add: flash_def)

lemma commit_fields [simp]:
  "users (commit st) = users st" "campaigns (commit st) = campaigns st"
  "candidates (commit st) = candidates st" "votes (commit st) = votes st"
  "session_user (commit st) = session_user st" "flashes (commit st) = flashes st"
  by (simp_all add: commit_def)

lemma flashes_fold_users [simp]:
  "users (fold (\<lambda>err. flash err c) errs st) = users st"
  by (induction errs arbitrary: st) (simp_all add: flash_def)

lemma demote_fold:
  "fold (\<lambda>user (s, changes). (set_is_admin (u_id user) False s, True)) us (st, ch) =
     (st\<lparr>users := map (\<lambda>u. if u_id u \<in> u_id ` set us then u\<lparr>u_is_admin := False\<rparr> else u)
                      (users st)\<rparr>,
      ch \<or> us \<noteq> [])"
proof (induction us arbitrary: st ch)
  case Nil
  show ?case by simp
next
  case (Cons x xs)
  have m: "map (\<lambda>u. if u_id u \<in> u_id ` set xs then u\<lparr>u_is_admin := False\<rparr> else u)
          (map (\<lambda>u. if u_id u = u_id x then u\<lparr>u_is_admin := False\<rparr> else u) (users st)) =
        map (\<lambda>u. if u_id u \<in> u_id ` set (x # xs) then u\<lparr>u_is_admin := False\<rparr> else u) (users st)"
    by (rule list.map_cong0 [THEN trans [OF list.map_comp]]) auto
  have "fold (\<lambda>user (s, changes). (set_is_admin (u_id user) False s, True)) (x # xs) (st, ch) =
        fold (\<lambda>user (s, changes). (set_is_admin (u_id user) False s, True)) xs
          (set_is_admin (u_id x) False st, True)"
    by simp
  also have "\<dots> = ((set_is_admin (u_id x) False st)\<lparr>users :=
          map (\<lambda>u. if u_id u \<in> u_id ` set xs then u\<lparr>u_is_admin := False\<rparr> else u)
            (users (set_is_admin (u_id x) False st))\<rparr>, True \<or> xs \<noteq> [])"
    by (rule Cons.IH)
  also have "\<dots> = (st\<lparr>users :=
          map (\<lambda>u. if u_id u \<in> u_id ` set (x # xs) then u\<lparr>u_is_admin := False\<rparr> else u)
            (users st)\<rparr>, ch \<or> x # xs \<noteq> [])"
    using m by (simp add: set_is_admin_def)
  finally show ?case .
qed

lemma enforce_users:
  assumes ids: "distinct (map u_id (users st))"
    and emails: "distinct (map u_email (users st))"
    and found: "user_by_email st ''1@gmail.com'' = Some p"
  shows "users (enforce_primary_admin st) =
           map (\<lambda>u. u\<lparr>u_is_admin := (u_email u = ''1@gmail.com'')\<rparr>) (users st)"
proof -
  let ?P = "''1@gmail.com''"
  let ?Q = "\<lambda>u. u_email u \<noteq> ?P \<and> u_is_admin u"
  have p: "p \<in> set (users st)" "u_email p = ?P"
    using found find_in_set [of "\<lambda>u. u_email u = ?P" "users st" p]
    by (simp_all add: user_by_email_def)
  have inj_id: "inj_on u_id (set (users st))" using ids by (simp add: distinct_map)
  have inj_em: "inj_on u_email (set (users st))" using emails by (simp add: distinct_map)
  have sel: "u_id u \<in> u_id ` set (filter ?Q (users st)) \<longleftrightarrow> ?Q u" if "u \<in> set (users st)" for u
  proof
    assume "u_id u \<in> u_id ` set (filter ?Q (users st))"
    then obtain w where w: "w \<in> set (users st)" "?Q w" "u_id u = u_id w" by auto
    with that inj_id have "u = w" by (auto dest: inj_onD)
    with w show "?Q u" by simp
  next
    assume "?Q u" with that show "u_id u \<in> u_id ` set (filter ?Q (users st))" by auto
  qed
  have same: "u_id u = u_id p \<longleftrightarrow> u_email u = ?P" if "u \<in> set (users st)" for u
  proof
    assume "u_id u = u_id p"
    with inj_id have "u = p" using that p(1) by (rule inj_onD)
    with p(2) show "u_email u = ?P" by simp
  next
    assume "u_email u = ?P"
    with p(2) have "u_email u = u_email p" by simp
    with inj_em have "u = p" using that p(1) by (rule inj_onD)
    then show "u_id u = u_id p" by simp
  qed
  have step1: "map (\<lambda>u. if u_id u \<in> u_id ` set (filter ?Q (users st))
                         then u\<lparr>u_is_admin := False\<rparr> else u) (users st) =
               map (\<lambda>u. if ?Q u then u\<lparr>u_is_admin := False\<rparr> else u) (users st)"
  proof (rule map_cong [OF refl])
    fix u assume u: "u \<in> set (users st)"
    show "(if u_id u \<in> u_id ` set (filter ?Q (users st)) then u\<lparr>u_is_admin := False\<rparr> else u) =
          (if ?Q u then u\<lparr>u_is_admin := False\<rparr> else u)"
      unfolding sel [OF u] by (rule refl)
  qed
  have step2: "map (\<lambda>u. if u_id u = u_id p then u\<lparr>u_is_admin := True\<rparr> else u)
                 (map (\<lambda>u. if ?Q u then u\<lparr>u_is_admin := False\<rparr> else u) (users st)) =
               map (\<lambda>u. u\<lparr>u_is_admin := (u_email u = ?P)\<rparr>) (users st)"
    unfolding list.map_comp by (rule map_cong) (auto simp: same)
  have step3: "u_is_admin p \<Longrightarrow>
               map (\<lambda>u. if ?Q u then u\<lparr>u_is_admin := False\<rparr> else u) (users st) =
               map (\<lambda>u. u\<lparr>u_is_admin := (u_email u = ?P)\<rparr>) (users st)"
  proof (rule map_cong [OF refl])
    fix u assume adm: "u_is_admin p" and u: "u \<in> set (users st)"
    show "(if ?Q u then u\<lparr>u_is_admin := False\<rparr> else u) = u\<lparr>u_is_admin := (u_email u = ?P)\<rparr>"
    proof (cases "u_email u = ?P")
      case True
      with p(2) have "u_email u = u_email p" by simp
      with inj_em have "u = p" using u p(1) by (rule inj_onD)
      with adm True show ?thesis by simp
    next
      case False
      then show ?thesis by simp
    qed
  qed
  have fold_eq:
    "fold (\<lambda>user (s, changes). (set_is_admin (u_id user) False s, True))
       (filter ?Q (users st)) (st, False) =
     (st\<lparr>users := map (\<lambda>u. if ?Q u then u\<lparr>u_is_admin := False\<rparr> else u) (users st)\<rparr>,
      filter ?Q (users st) \<noteq> [])"
    unfolding demote_fold step1 by simp
  show ?thesis
    unfolding enforce_primary_admin_def Let_def found option.case fold_eq prod.case
    using step2 step3 by (simp add: set_is_admin_def commit_def)
qed

lemma enforce_fixed:
  assumes found: "user_by_email s ''1@gmail.com'' = Some p"
    and adm: "u_is_admin p"
    and rest: "\<forall>u \<in> set (users s). u_is_admin u \<longrightarrow> u_email u = ''1@gmail.com''"
  shows "enforce_primary_admin s = s"
proof -
  have "filter (\<lambda>u. u_email u \<noteq> ''1@gmail.com'' \<and> u_is_admin u) (users s) = []"
    using rest by (auto simp: filter_empty_conv)
  then show ?thesis
    using found adm by (simp add: enforce_primary_admin_def Let_def)
qed

lemma find_map_email:
  "List.find (\<lambda>u. u_email u = e) (map (\<lambda>u. u\<lparr>u_is_admin := f u\<rparr>) us) =
   map_option (\<lambda>u. u\<lparr>u_is_admin := f u\<rparr>) (List.find (\<lambda>u. u_email u = e) us)"
  by (induction us) auto

lemma login_key_failure:
  assumes "rq_method rq = POST"
    and "user_by_email st (lower (strip (form_get_default rq ''email'' []))) = Some u"
    and "check_password L u (form_get_default rq ''password'' [])"
    and "\<not> u_is_admin u"
    and "\<not> verify_security_key L u (Some (strip (form_get_default rq ''security_key'' [])))"
  shows "login L None rq st =
           (st\<lparr>flashes := flashes st @ [(''Invalid security key.'', ''danger''),
                                       (''Invalid email or password.'', ''danger'')]\<rparr>,
            Render ''login.html'')"
  using assms by (simp add: login_def Let_def flash_def)

lemma cast_vote_votes:
  "votes (fst (cast_vote L cur rq cid st)) = votes st \<or>
   (\<exists>v cand camp. votes (fst (cast_vote L cur rq cid st)) = votes st @ [v] \<and>
      get_candidate st cid = Some cand \<and>
      get_campaign st (cand_campaign_id cand) = Some camp \<and>
      v_user_id v = u_id cur \<and> v_campaign_id v = c_id camp \<and>
      List.find (\<lambda>w. v_user_id w = u_id cur \<and> v_campaign_id w = c_id camp) (votes st) = None)"
  by (auto simp: cast_vote_def Let_def split: option.splits sum.splits)

lemma encrypt_choice_ok:
  assumes "cipher_ok L"
  shows "\<exists>token. encrypt_choice L iv name = Inr token"
proof -
  from assms obtain t where "bytes_decode L (fernet_encrypt L iv (str_encode L name)) = Inr t"
    unfolding cipher_ok_def by blast
  then show ?thesis by (simp add: encrypt_choice_def)
qed





section \<open>Security keys\<close>

text \<open>
  Claim C7. Verifying a security key is false whenever the candidate value is absent or
  empty or no hash is stored; otherwise it is the library's check of the trimmed candidate
  against the stored hash. With a hashing library that keeps its contract, a key stored
  from \<open>ABC123\<close> verifies for \<open>ABC123\<close> and for \<open>ABC123\<close> with surrounding blanks, and
  fails for \<open>abc123\<close>, for the empty string and for an absent value.
\<close>

theorem verify_security_key_spec:
  "(k = None \<or> k = Some [] \<or> u_security_key_hash u = None \<or>
    u_security_key_hash u = Some [] \<longrightarrow>
      verify_security_key L u k = False) \<and>
   (k = Some s \<and> s \<noteq> [] \<and> u_security_key_hash u = Some h \<and> h \<noteq> [] \<longrightarrow>
      verify_security_key L u k = check_password_hash L h (strip s)) \<and>
   (hash_ok L \<longrightarrow>
      (let u' = set_security_key L salt (Some ''ABC123'') u
       in verify_security_key L u' (Some ''ABC123'') \<and>
          verify_security_key L u' (Some '' ABC123 '') \<and>
          \<not> verify_security_key L u' (Some ''abc123'') \<and>
          \<not> verify_security_key L u' (Some []) \<and>
          \<not> verify_security_key L u' None))"
proof (intro conjI impI)
  assume "k = None \<or> k = Some [] \<or> u_security_key_hash u = None \<or>
    u_security_key_hash u = Some []"
  then show "verify_security_key L u k = False"
    by (auto simp: verify_security_key_def truthy_def)
next
  assume "k = Some s \<and> s \<noteq> [] \<and> u_security_key_hash u = Some h \<and> h \<noteq> []"
  then show "verify_security_key L u k = check_password_hash L h (strip s)"
    by (simp add: verify_security_key_def truthy_def)
next
  assume ok: "hash_ok L"
  have ne: "generate_password_hash L salt ''ABC123'' \<noteq> []"
    using ok by (simp add: hash_ok_def)
  have chk: "\<And>t. check_password_hash L (generate_password_hash L salt ''ABC123'') t = (''ABC123'' = t)"
    using ok by (simp add: hash_ok_def)
  show "let u' = set_security_key L salt (Some ''ABC123'') u
       in verify_security_key L u' (Some ''ABC123'') \<and>
          verify_security_key L u' (Some '' ABC123 '') \<and>
          \<not> verify_security_key L u' (Some ''abc123'') \<and>
          \<not> verify_security_key L u' (Some []) \<and>
          \<not> verify_security_key L u' None"
    using ne by (simp add: Let_def set_security_key_def verify_security_key_def truthy_def strip_ABC chk)
qed

theorem verify_security_key_spec_witness:
  "hash_ok test_env \<and>
   verify_security_key test_env ex_voter None = False \<and>
   verify_security_key test_env ex_voter (Some '' ABC123 '') =
     check_password_hash test_env ''#ABC123'' ''ABC123'' \<and>
   (let u' = set_security_key test_env 7 (Some ''ABC123'') ex_voter
       in verify_security_key test_env u' (Some ''ABC123'') \<and>
          verify_security_key test_env u' (Some '' ABC123 '') \<and>
          \<not> verify_security_key test_env u' (Some ''abc123'') \<and>
          \<not> verify_security_key test_env u' (Some []) \<and>
          \<not> verify_security_key test_env u' None)"
proof -
  have ok: "hash_ok test_env" by (rule hash_ok_test_env)
  have h: "u_security_key_hash ex_voter = Some ''#ABC123''" by (simp add: ex_voter_def)
  show ?thesis
    using ok h
      verify_security_key_spec [where k = None and u = ex_voter and L = test_env and salt = 7]
      verify_security_key_spec [where k = "Some '' ABC123 ''" and s = "'' ABC123 ''" and u = ex_voter
        and L = test_env and h = "''#ABC123''" and salt = 7]
    by (simp add: strip_ABC)
qed

text \<open>
  Claim C8, as amended. Setting the security key with an absent or empty value clears the
  stored hash; setting it with any non-empty value stores the hash of the trimmed value.
  The value is tested before it is trimmed, so a value of blanks only stores the hash of
  the empty string.
\<close>

theorem set_security_key_spec:
  "(k = None \<or> k = Some [] \<longrightarrow>
      set_security_key L salt k u = u\<lparr>u_security_key_hash := None\<rparr>) \<and>
   (k = Some s \<and> s \<noteq> [] \<longrightarrow>
      set_security_key L salt k u =
        u\<lparr>u_security_key_hash := Some (generate_password_hash L salt (strip s))\<rparr>)"
  by (auto simp: set_security_key_def truthy_def)

theorem set_security_key_spec_witness:
  "set_security_key test_env 7 None ex_voter = ex_voter\<lparr>u_security_key_hash := None\<rparr> \<and>
   set_security_key test_env 7 (Some ''   '') ex_voter =
     ex_voter\<lparr>u_security_key_hash := Some (generate_password_hash test_env 7 [])\<rparr>"
  using set_security_key_spec [where k = None and L = test_env and salt = 7 and u = ex_voter]
        set_security_key_spec [where k = "Some ''   ''" and s = "''   ''" and L = test_env and salt = 7 and u = ex_voter]
  by (simp add: strip_blank)

text \<open>
  The claim C8 as first stated fails: three blanks are empty after trimming, and the
  stored hash is not cleared.
\<close>

theorem set_security_key_blank_counterexample:
  "strip ''   '' = [] \<and>
   u_security_key_hash (set_security_key test_env 7 (Some ''   '') ex_voter) = Some ''#''"
  by (simp add: strip_blank set_security_key_def truthy_def test_env_def)

section \<open>Vote encryption\<close>

text \<open>
  Claim C3. With a cipher and codec that keep their contract, encrypting a candidate name
  gives a token that decrypts to the same name. Decrypting an absent token gives no
  value, decrypting a token the cipher or the codec rejects gives no value, and
  \<open>decrypt_choice\<close> never raises: its result is always a right value.
\<close>

theorem decrypt_choice_spec:
  "(cipher_ok L \<longrightarrow>
      (\<exists>token. encrypt_choice L iv name = Inr token \<and>
               decrypt_choice L (Some token) = Inr (Some name))) \<and>
   decrypt_choice L None = Inr None \<and>
   (decrypt_token L t = Inl e \<longrightarrow> decrypt_choice L (Some t) = Inr None) \<and>
   (\<exists>r. decrypt_choice L tok = Inr r)"
proof (intro conjI impI)
  assume ok: "cipher_ok L"
  from ok obtain token where tk: "token \<noteq> []"
      "bytes_decode L (fernet_encrypt L iv (str_encode L name)) = Inr token"
      "str_encode L token = fernet_encrypt L iv (str_encode L name)"
    unfolding cipher_ok_def by blast
  have dec: "fernet_decrypt L (fernet_encrypt L iv (str_encode L name)) = Inr (str_encode L name)"
    using ok unfolding cipher_ok_def by blast
  have rt: "bytes_decode L (str_encode L name) = Inr name"
    using ok unfolding cipher_ok_def by blast
  have "encrypt_choice L iv name = Inr token"
    by (simp add: encrypt_choice_def tk)
  moreover have "decrypt_choice L (Some token) = Inr (Some name)"
    by (simp add: decrypt_choice_def decrypt_token_def truthy_def tk dec rt)
  ultimately show "\<exists>token. encrypt_choice L iv name = Inr token \<and>
               decrypt_choice L (Some token) = Inr (Some name)" by blast
next
  show "decrypt_choice L None = Inr None" by (simp add: decrypt_choice_def truthy_def)
next
  assume "decrypt_token L t = Inl e"
  then show "decrypt_choice L (Some t) = Inr None" by (simp add: decrypt_choice_def)
next
  show "\<exists>r. decrypt_choice L tok = Inr r"
    by (simp add: decrypt_choice_def split: sum.split)
qed

theorem decrypt_choice_spec_witness:
  "cipher_ok test_env \<and>
   encrypt_choice test_env 5 ''Alice Johnson'' = Inr ''gnosnhoJ ecilA'' \<and>
   decrypt_choice test_env (Some ''gnosnhoJ ecilA'') = Inr (Some ''Alice Johnson'') \<and>
   decrypt_token test_env ''not-a-token'' = Inl InvalidToken \<and>
   decrypt_choice test_env (Some ''not-a-token'') = Inr None"
proof -
  have ok: "cipher_ok test_env" by (rule cipher_ok_test_env)
  have bad: "decrypt_token test_env ''not-a-token'' = Inl InvalidToken"
    by (simp add: decrypt_token_def test_env_def)
  have enc: "encrypt_choice test_env 5 ''Alice Johnson'' = Inr ''gnosnhoJ ecilA''"
    by (simp add: encrypt_choice_def test_env_def)
  show ?thesis
    using ok bad enc decrypt_choice_spec [where L = test_env and iv = 5 and name = "''Alice Johnson''"
        and t = "''not-a-token''" and e = InvalidToken and tok = None]
    by simp
qed

section \<open>The primary administrator\<close>

text \<open>
  Claim C2. In a database whose user keys and e-mail addresses are unique: when a user
  with the e-mail address \<open>1@gmail.com\<close> exists, the enforcement routine leaves the admin
  flag set on exactly that user and cleared on every other user, all else in the user rows
  unchanged, and running it again returns the same state, commit count included; when no
  such user exists, the routine returns the state as it was.
\<close>

theorem enforce_primary_admin_spec:
  assumes ids: "distinct (map u_id (users st))"
    and emails: "distinct (map u_email (users st))"
  shows "(user_by_email st ''1@gmail.com'' \<noteq> None \<longrightarrow>
            users (enforce_primary_admin st) =
              map (\<lambda>u. u\<lparr>u_is_admin := (u_email u = ''1@gmail.com'')\<rparr>) (users st) \<and>
            (\<forall>u \<in> set (users (enforce_primary_admin st)).
               u_is_admin u = (u_email u = ''1@gmail.com'')) \<and>
            enforce_primary_admin (enforce_primary_admin st) = enforce_primary_admin st) \<and>
         (user_by_email st ''1@gmail.com'' = None \<longrightarrow> enforce_primary_admin st = st)"
proof (intro conjI impI)
  assume "user_by_email st ''1@gmail.com'' \<noteq> None"
  then obtain p where found: "user_by_email st ''1@gmail.com'' = Some p" by blast
  show us: "users (enforce_primary_admin st) =
              map (\<lambda>u. u\<lparr>u_is_admin := (u_email u = ''1@gmail.com'')\<rparr>) (users st)"
    using ids emails found by (rule enforce_users)
  show flags: "\<forall>u \<in> set (users (enforce_primary_admin st)).
               u_is_admin u = (u_email u = ''1@gmail.com'')"
    unfolding us by auto
  have p: "u_email p = ''1@gmail.com''"
    using found find_in_set [of "\<lambda>u. u_email u = ''1@gmail.com''" "users st" p]
    by (simp add: user_by_email_def)
  have found': "user_by_email (enforce_primary_admin st) ''1@gmail.com'' =
                  Some (p\<lparr>u_is_admin := True\<rparr>)"
    using found p unfolding user_by_email_def us find_map_email by simp
  show "enforce_primary_admin (enforce_primary_admin st) = enforce_primary_admin st"
    using found' _ _ 
  proof (rule enforce_fixed)
    show "u_is_admin (p\<lparr>u_is_admin := True\<rparr>)" by simp
    show "\<forall>u\<in>set (users (enforce_primary_admin st)). u_is_admin u \<longrightarrow> u_email u = ''1@gmail.com''"
      using flags by simp
  qed
next
  assume "user_by_email st ''1@gmail.com'' = None"
  then show "enforce_primary_admin st = st"
    by (simp add: enforce_primary_admin_def)
qed

theorem enforce_primary_admin_spec_witness:
  "distinct (map u_id (users ex_state)) \<and> distinct (map u_email (users ex_state)) \<and>
   user_by_email ex_state ''1@gmail.com'' \<noteq> None \<and>
   map u_is_admin (users ex_state) = [True, False, True] \<and>
   map u_is_admin (users (enforce_primary_admin ex_state)) = [True, False, False] \<and>
   enforce_primary_admin (enforce_primary_admin ex_state) = enforce_primary_admin ex_state \<and>
   user_by_email (ex_state\<lparr>users := [ex_voter]\<rparr>) ''1@gmail.com'' = None \<and>
   enforce_primary_admin (ex_state\<lparr>users := [ex_voter]\<rparr>) = ex_state\<lparr>users := [ex_voter]\<rparr>"
proof -
  have d: "distinct (map u_id (users ex_state))" "distinct (map u_email (users ex_state))"
    by (simp_all add: ex_defs)
  have d': "distinct (map u_id (users (ex_state\<lparr>users := [ex_voter]\<rparr>)))"
    "distinct (map u_email (users (ex_state\<lparr>users := [ex_voter]\<rparr>)))"
    by simp_all
  show ?thesis
    using d enforce_primary_admin_spec [OF d] enforce_primary_admin_spec [OF d']
    by (simp add: ex_defs user_by_email_def)
qed

section \<open>Signup and login\<close>

text \<open>
  Claim C5. On a signup form posted by an unauthenticated caller: with a non-empty
  trimmed username, a non-empty password and an e-mail address that normalises to
  \<open>1@gmail.com\<close> and is not registered, one account is added, it is an admin and has no
  security-key hash, whatever the security-key field holds. For any other address,
  either no account is added, or the trimmed security key is non-empty and the one
  account added is not an admin and has a security-key hash.
\<close>

theorem signup_spec:
  assumes post: "rq_method rq = POST"
  shows
   "(strip (form_get_default rq ''username'' []) \<noteq> [] \<and>
     form_get_default rq ''password'' [] \<noteq> [] \<and>
     lower (strip (form_get_default rq ''email'' [])) = ''1@gmail.com'' \<and>
     user_by_email st ''1@gmail.com'' = None \<longrightarrow>
       (\<exists>u. users (fst (signup L None rq st)) = users st @ [u] \<and>
            u_email u = ''1@gmail.com'' \<and> u_is_admin u \<and> u_security_key_hash u = None) \<and>
       snd (signup L None rq st) = Redirect Login) \<and>
    (lower (strip (form_get_default rq ''email'' [])) \<noteq> ''1@gmail.com'' \<longrightarrow>
       users (fst (signup L None rq st)) = users st \<or>
       (strip (form_get_default rq ''security_key'' []) \<noteq> [] \<and>
        (\<exists>u. users (fst (signup L None rq st)) = users st @ [u] \<and>
             \<not> u_is_admin u \<and> u_security_key_hash u \<noteq> None)))"
proof (intro conjI impI)
  assume a: "strip (form_get_default rq ''username'' []) \<noteq> [] \<and>
     form_get_default rq ''password'' [] \<noteq> [] \<and>
     lower (strip (form_get_default rq ''email'' [])) = ''1@gmail.com'' \<and>
     user_by_email st ''1@gmail.com'' = None"
  then show "\<exists>u. users (fst (signup L None rq st)) = users st @ [u] \<and>
            u_email u = ''1@gmail.com'' \<and> u_is_admin u \<and> u_security_key_hash u = None"
    using post
    by (simp add: signup_def Let_def flash_def commit_def set_password_def set_security_key_def
        truthy_def)
  from a show "snd (signup L None rq st) = Redirect Login"
    using post by (simp add: signup_def Let_def)
next
  assume b: "lower (strip (form_get_default rq ''email'' [])) \<noteq> ''1@gmail.com''"
  show "users (fst (signup L None rq st)) = users st \<or>
       (strip (form_get_default rq ''security_key'' []) \<noteq> [] \<and>
        (\<exists>u. users (fst (signup L None rq st)) = users st @ [u] \<and>
             \<not> u_is_admin u \<and> u_security_key_hash u \<noteq> None))"
  proof (cases "strip (form_get_default rq ''security_key'' []) = []")
    case True
    with b post have "users (fst (signup L None rq st)) = users st"
      by (simp add: signup_def Let_def)
    then show ?thesis ..
  next
    case False
    with b post show ?thesis
      by (simp add: signup_def Let_def flash_def commit_def set_password_def
          set_security_key_def truthy_def)
  qed
qed

theorem signup_spec_witness:
  "(\<exists>u. users (fst (signup test_env None
            (post_rq [(''username'', ''root''), (''email'', '' 1@GMAIL.com ''),
                      (''password'', ''s3cret''), (''security_key'', ''ignored'')])
            (ex_state\<lparr>users := [ex_voter]\<rparr>))) = [ex_voter, u] \<and>
        u_email u = ''1@gmail.com'' \<and> u_is_admin u \<and> u_security_key_hash u = None) \<and>
   (\<exists>u. users (fst (signup test_env None
            (post_rq [(''username'', ''cy''), (''email'', ''cy@example.org''),
                      (''password'', ''pw2''), (''security_key'', '' K9 '')])
            ex_state)) = users ex_state @ [u] \<and>
        \<not> u_is_admin u \<and> u_security_key_hash u \<noteq> None) \<and>
   users (fst (signup test_env None
            (post_rq [(''username'', ''cy''), (''email'', ''cy@example.org''),
                      (''password'', ''pw2''), (''security_key'', ''  '')])
            ex_state)) = users ex_state"
proof -
  let ?a = "post_rq [(''username'', ''root''), (''email'', '' 1@GMAIL.com ''),
                      (''password'', ''s3cret''), (''security_key'', ''ignored'')]"
  let ?b = "post_rq [(''username'', ''cy''), (''email'', ''cy@example.org''),
                      (''password'', ''pw2''), (''security_key'', '' K9 '')]"
  let ?c = "post_rq [(''username'', ''cy''), (''email'', ''cy@example.org''),
                      (''password'', ''pw2''), (''security_key'', ''  '')]"
  have pa: "rq_method ?a = POST" and pb: "rq_method ?b = POST" and pc: "rq_method ?c = POST"
    by (simp_all add: post_rq_def)
  have grown: "users (fst (signup test_env None ?b ex_state)) \<noteq> users ex_state"
    by (simp add: signup_def Let_def form_get_default_def norm_emails strip_samples
        user_by_email_def ex_defs)
  have kept: "\<not> (\<exists>u. users (fst (signup test_env None ?c ex_state)) = users ex_state @ [u])"
    by (simp add: signup_def Let_def form_get_default_def norm_emails strip_samples
        user_by_email_def ex_defs)
  show ?thesis
    using grown kept
      signup_spec [OF pa, of "ex_state\<lparr>users := [ex_voter]\<rparr>" test_env]
      signup_spec [OF pb, of ex_state test_env]
      signup_spec [OF pc, of ex_state test_env]
    by (simp add: post_rq_def form_get_default_def norm_emails strip_samples
        user_by_email_def ex_voter_def)
qed

text \<open>
  Claim C4 on the code. A login with the right password and a wrong security key for a
  voter account queues the notice about the security key and then, falling through to
  the statement after the block, the generic notice as well; no session is bound.
\<close>

theorem login_wrong_key_two_notices:
  "login test_env None
     (post_rq [(''email'', '' Ann@Example.org''), (''password'', ''pw''),
               (''security_key'', ''wrong'')])
     ex_state =
   (ex_state\<lparr>flashes := [(''Invalid security key.'', ''danger''),
                          (''Invalid email or password.'', ''danger'')]\<rparr>,
    Render ''login.html'')"
proof -
  let ?rq = "post_rq [(''email'', '' Ann@Example.org''), (''password'', ''pw''),
               (''security_key'', ''wrong'')]"
  have "login test_env None ?rq ex_state =
           (ex_state\<lparr>flashes := flashes ex_state @ [(''Invalid security key.'', ''danger''),
                                       (''Invalid email or password.'', ''danger'')]\<rparr>,
            Render ''login.html'')"
  proof (rule login_key_failure [where u = ex_voter])
    show "rq_method ?rq = POST" by (simp add: post_rq_def)
    show "user_by_email ex_state (lower (strip (form_get_default ?rq ''email'' []))) = Some ex_voter"
      by (simp add: ex_defs form_get_default_def norm_emails user_by_email_def)
    show "check_password test_env ex_voter (form_get_default ?rq ''password'' [])"
      by (simp add: ex_defs form_get_default_def check_password_def test_env_def)
    show "\<not> u_is_admin ex_voter" by (simp add: ex_voter_def)
    show "\<not> verify_security_key test_env ex_voter
              (Some (strip (form_get_default ?rq ''security_key'' [])))"
      by (simp add: ex_defs form_get_default_def verify_security_key_def truthy_def
          strip_samples test_env_def)
  qed
  then show ?thesis by (simp add: ex_state_def)
qed

section \<open>Casting a vote\<close>

text \<open>
  Claim C1. Casting a vote keeps at most one vote per pair of user and campaign. When the
  caller already has a vote in the candidate's campaign, no vote row is added, and a
  request that reaches the check (a non-admin caller whose security key verifies, the
  campaign active) is answered with the informational notice and the state otherwise
  unchanged. When the caller has no vote in the candidate's active campaign, whatever
  votes the caller has in other campaigns, such a request adds one vote row for the
  caller in that campaign.
\<close>

theorem cast_vote_once_per_campaign:
  "(distinct (map (\<lambda>v. (v_user_id v, v_campaign_id v)) (votes st)) \<longrightarrow>
      distinct (map (\<lambda>v. (v_user_id v, v_campaign_id v))
                 (votes (fst (cast_vote L cur rq cid st))))) \<and>
   (get_candidate st cid = Some cand \<and>
    get_campaign st (cand_campaign_id cand) = Some camp \<and>
    (\<exists>v \<in> set (votes st). v_user_id v = u_id cur \<and> v_campaign_id v = c_id camp) \<longrightarrow>
      votes (fst (cast_vote L cur rq cid st)) = votes st \<and>
      (\<not> u_is_admin cur \<and>
       verify_security_key L cur (Some (strip (form_get_default rq ''security_key'' []))) \<and>
       c_is_active camp \<longrightarrow>
         cast_vote L cur rq cid st =
           (flash ''You have already voted in this campaign.'' ''info'' st,
            Redirect UserDashboard))) \<and>
   (get_candidate st cid = Some cand \<and>
    get_campaign st (cand_campaign_id cand) = Some camp \<and> c_is_active camp \<and>
    \<not> u_is_admin cur \<and>
    verify_security_key L cur (Some (strip (form_get_default rq ''security_key'' []))) \<and>
    cipher_ok L \<and>
    (\<forall>v \<in> set (votes st). v_user_id v = u_id cur \<longrightarrow> v_campaign_id v \<noteq> c_id camp) \<longrightarrow>
      (\<exists>v. votes (fst (cast_vote L cur rq cid st)) = votes st @ [v] \<and>
           v_user_id v = u_id cur \<and> v_campaign_id v = c_id camp \<and>
           v_candidate_id v = cand_id cand) \<and>
      flashes (fst (cast_vote L cur rq cid st)) =
        flashes st @ [(''Vote submitted successfully!'', ''success'')] \<and>
      snd (cast_vote L cur rq cid st) = Redirect UserDashboard)"
proof (intro conjI impI)
  assume d: "distinct (map (\<lambda>v. (v_user_id v, v_campaign_id v)) (votes st))"
  show "distinct (map (\<lambda>v. (v_user_id v, v_campaign_id v))
                 (votes (fst (cast_vote L cur rq cid st))))"
  proof (rule disjE [OF cast_vote_votes [of L cur rq cid st]])
    assume "votes (fst (cast_vote L cur rq cid st)) = votes st"
    with d show ?thesis by simp
  next
    assume "\<exists>v cand camp. votes (fst (cast_vote L cur rq cid st)) = votes st @ [v] \<and>
      get_candidate st cid = Some cand \<and>
      get_campaign st (cand_campaign_id cand) = Some camp \<and>
      v_user_id v = u_id cur \<and> v_campaign_id v = c_id camp \<and>
      List.find (\<lambda>w. v_user_id w = u_id cur \<and> v_campaign_id w = c_id camp) (votes st) = None"
    then obtain v and camp :: campaign where new: "votes (fst (cast_vote L cur rq cid st)) = votes st @ [v]"
      "v_user_id v = u_id cur" "v_campaign_id v = c_id camp"
      "\<forall>w \<in> set (votes st). \<not> (v_user_id w = u_id cur \<and> v_campaign_id w = c_id camp)"
      unfolding find_None_set by blast
    have "(v_user_id v, v_campaign_id v) \<notin> (\<lambda>v. (v_user_id v, v_campaign_id v)) ` set (votes st)"
      using new(2-4) by auto
    with d show ?thesis unfolding new(1) by simp
  qed
next
  assume a: "get_candidate st cid = Some cand \<and>
    get_campaign st (cand_campaign_id cand) = Some camp \<and>
    (\<exists>v \<in> set (votes st). v_user_id v = u_id cur \<and> v_campaign_id v = c_id camp)"
  then have ex: "List.find (\<lambda>v. v_user_id v = u_id cur \<and> v_campaign_id v = c_id camp) (votes st) \<noteq> None"
    by (simp add: find_None_set)
  show "votes (fst (cast_vote L cur rq cid st)) = votes st"
    using cast_vote_votes [of L cur rq cid st] a ex by auto
  assume "\<not> u_is_admin cur \<and>
       verify_security_key L cur (Some (strip (form_get_default rq ''security_key'' []))) \<and>
       c_is_active camp"
  with a ex show "cast_vote L cur rq cid st =
           (flash ''You have already voted in this campaign.'' ''info'' st,
            Redirect UserDashboard)"
    by (simp add: cast_vote_def Let_def)
next
  assume a: "get_candidate st cid = Some cand \<and>
    get_campaign st (cand_campaign_id cand) = Some camp \<and> c_is_active camp \<and>
    \<not> u_is_admin cur \<and>
    verify_security_key L cur (Some (strip (form_get_default rq ''security_key'' []))) \<and>
    cipher_ok L \<and>
    (\<forall>v \<in> set (votes st). v_user_id v = u_id cur \<longrightarrow> v_campaign_id v \<noteq> c_id camp)"
  then have none: "List.find (\<lambda>v. v_user_id v = u_id cur \<and> v_campaign_id v = c_id camp) (votes st) = None"
    by (auto simp: find_None_set)
  from a obtain token where tok: "encrypt_choice L (rq_iv rq) (cand_name cand) = Inr token"
    using encrypt_choice_ok by blast
  have eq: "cast_vote L cur rq cid st =
        (flash ''Vote submitted successfully!'' ''success''
           (commit (st\<lparr>votes := votes st @
              [\<lparr>v_id = next_id (map v_id (votes st)), v_timestamp = rq_now rq,
                v_user_id = u_id cur, v_candidate_id = cand_id cand,
                v_campaign_id = c_id camp, v_encrypted_choice = Some token\<rparr>]\<rparr>)),
         Redirect UserDashboard)"
    using a none tok by (simp add: cast_vote_def Let_def)
  show "\<exists>v. votes (fst (cast_vote L cur rq cid st)) = votes st @ [v] \<and>
           v_user_id v = u_id cur \<and> v_campaign_id v = c_id camp \<and>
           v_candidate_id v = cand_id cand"
    unfolding eq by simp
  show "flashes (fst (cast_vote L cur rq cid st)) =
        flashes st @ [(''Vote submitted successfully!'', ''success'')]"
    unfolding eq by (simp add: flash_def commit_def)
  show "snd (cast_vote L cur rq cid st) = Redirect UserDashboard"
    unfolding eq by simp
qed

theorem cast_vote_once_per_campaign_witness:
  "distinct (map (\<lambda>v. (v_user_id v, v_campaign_id v)) (votes ex_voted)) \<and>
   map (\<lambda>v. (v_user_id v, v_campaign_id v)) (votes ex_voted) = [(2, 1)] \<and>
   cast_vote test_env ex_voter (post_rq [(''security_key'', '' ABC123 '')]) 2 ex_voted =
     (flash ''You have already voted in this campaign.'' ''info'' ex_voted,
      Redirect UserDashboard) \<and>
   map (\<lambda>v. (v_user_id v, v_campaign_id v))
     (votes (fst (cast_vote test_env ex_voter (post_rq [(''security_key'', '' ABC123 '')]) 3
                    ex_voted))) = [(2, 1), (2, 2)] \<and>
   snd (cast_vote test_env ex_voter (post_rq [(''security_key'', '' ABC123 '')]) 3 ex_voted) =
     Redirect UserDashboard"
proof -
  let ?rq = "post_rq [(''security_key'', '' ABC123 '')]"
  have key: "verify_security_key test_env ex_voter
               (Some (strip (form_get_default ?rq ''security_key'' [])))"
    by (simp add: ex_defs form_get_default_def verify_security_key_def truthy_def strip_ABC
        test_env_def)
  have voter: "\<not> u_is_admin ex_voter" "u_id ex_voter = 2" by (simp_all add: ex_voter_def)
  have c2: "get_candidate ex_voted 2 =
              Some \<lparr>cand_id = 2, cand_name = ''Brian Smith'',
                    cand_manifesto = Some ''Innovation in voting.'', cand_campaign_id = 1\<rparr>"
    and c3: "get_candidate ex_voted 3 =
              Some \<lparr>cand_id = 3, cand_name = ''Dana Lee'', cand_manifesto = None,
                    cand_campaign_id = 2\<rparr>"
    by (simp_all add: ex_defs get_candidate_def)
  have g1: "get_campaign ex_voted 1 =
              Some \<lparr>c_id = 1, c_name = ''General Election'',
                    c_description = Some ''Default campaign created automatically.'',
                    c_is_active = True, c_start_at = None, c_end_at = None, c_created_at = 10\<rparr>"
    and g2: "get_campaign ex_voted 2 =
              Some \<lparr>c_id = 2, c_name = ''Board'', c_description = None,
                    c_is_active = True, c_start_at = None, c_end_at = None, c_created_at = 20\<rparr>"
    by (simp_all add: ex_defs get_campaign_def)
  have vs: "votes ex_voted =
              [\<lparr>v_id = 1, v_timestamp = 200, v_user_id = 2, v_candidate_id = 1,
                v_campaign_id = 1, v_encrypted_choice = Some ''gnosnhoJ ecilA''\<rparr>]"
    by (simp add: ex_defs)
  show ?thesis
    using key voter c2 c3 g1 g2 cipher_ok_test_env
      cast_vote_once_per_campaign [where L = test_env and cur = ex_voter and rq = ?rq
        and cid = 2 and st = ex_voted
        and cand = "\<lparr>cand_id = 2, cand_name = ''Brian Smith'',
                    cand_manifesto = Some ''Innovation in voting.'', cand_campaign_id = 1\<rparr>"
        and camp = "\<lparr>c_id = 1, c_name = ''General Election'',
                    c_description = Some ''Default campaign created automatically.'',
                    c_is_active = True, c_start_at = None, c_end_at = None, c_created_at = 10\<rparr>"]
      cast_vote_once_per_campaign [where L = test_env and cur = ex_voter and rq = ?rq
        and cid = 3 and st = ex_voted
        and cand = "\<lparr>cand_id = 3, cand_name = ''Dana Lee'', cand_manifesto = None,
                    cand_campaign_id = 2\<rparr>"
        and camp = "\<lparr>c_id = 2, c_name = ''Board'', c_description = None,
                    c_is_active = True, c_start_at = None, c_end_at = None, c_created_at = 20\<rparr>"]
    by (auto simp: vs)
qed

section \<open>Administrative console\<close>



text \<open>
  Claim C10. When an admin posts to the voter-management route and the target is the
  caller's own account, the answer is the warning and a redirect to the same route, with
  no change to the state beyond the notice, whatever the action field holds.
\<close>

theorem admin_voters_self_target:
  assumes admin: "u_is_admin current_user"
    and post: "rq_method rq = POST"
    and key: "key_of_form L (form_get rq ''user_id'') = Some i"
    and target: "get_user st i = Some target"
    and self: "u_id target = u_id current_user"
  shows "admin_voters L current_user rq st =
           (flash ''You cannot modify your own role.'' ''warning'' st, Redirect AdminVoters)"
  using assms by (simp add: admin_voters_def admin_required_def admin_voters_view_def Let_def)

theorem admin_voters_self_target_witness:
  "u_is_admin ex_admin \<and>
   key_of_form test_env (form_get (post_rq [(''action'', ''delete''), (''user_id'', ''1'')])
     ''user_id'') = Some 1 \<and>
   get_user ex_state 1 = Some ex_admin \<and>
   admin_voters test_env ex_admin (post_rq [(''action'', ''delete''), (''user_id'', ''1'')])
     ex_state =
     (flash ''You cannot modify your own role.'' ''warning'' ex_state, Redirect AdminVoters) \<and>
   admin_voters test_env ex_admin (post_rq [(''user_id'', ''1'')]) ex_state =
     (flash ''You cannot modify your own role.'' ''warning'' ex_state, Redirect AdminVoters)"
proof -
  let ?a = "post_rq [(''action'', ''delete''), (''user_id'', ''1'')]"
  let ?b = "post_rq [(''user_id'', ''1'')]"
  have adm: "u_is_admin ex_admin" by (simp add: ex_admin_def)
  have pa: "rq_method ?a = POST" and pb: "rq_method ?b = POST" by (simp_all add: post_rq_def)
  have ka: "key_of_form test_env (form_get ?a ''user_id'') = Some 1"
    and kb: "key_of_form test_env (form_get ?b ''user_id'') = Some 1"
    by (simp_all add: key_of_form_def form_get_def post_rq_def test_env_def py_int_small)
  have t: "get_user ex_state 1 = Some ex_admin"
    by (simp add: get_user_def ex_state_def ex_admin_def)
  show ?thesis
    using adm ka t admin_voters_self_target [OF adm pa ka t refl]
      admin_voters_self_target [OF adm pb kb t refl]
    by simp
qed




end
